theory Spec2Isabelle
  imports Main "HOL-Library.Word"
begin

section \<open>JavaScript strings and values\<close>

text \<open>
  A JavaScript string is a sequence of UTF-16 code units; \<open>.length\<close> counts code units.
  String literals of the source are ASCII and are written \<open>js ''...''\<close>.
\<close>

type_synonym jsstring = "16 word list"

definition js :: "string \<Rightarrow> jsstring" where
  "js s = map of_char s"

text \<open>
  The validators are exported on \<open>window.FormValidation\<close> and take any JavaScript value.
  The code only ever asks \<open>typeof value !== 'string'\<close>, so the payload of a non-string
  value is never inspected.
\<close>

datatype jsval = JUndefined | JNull | JBoolean bool | JNumber int | JObject | JString jsstring

fun isString :: "jsval \<Rightarrow> bool" where
  "isString (JString s) = True"
| "isString v = False"

text \<open>
  ECMAScript \<open>WhiteSpace\<close> and \<open>LineTerminator\<close> code points: what
  \<open>String.prototype.trim\<close> removes at both ends, and what \<open>\s\<close> matches.
\<close>

definition isWhiteSpace :: "16 word \<Rightarrow> bool" where
  "isWhiteSpace c =
     ((0x09 \<le> c \<and> c \<le> 0x0D) \<or> c = 0x20 \<or> c = 0xA0 \<or> c = 0x1680 \<or>
      (0x2000 \<le> c \<and> c \<le> 0x200A) \<or> c = 0x2028 \<or> c = 0x2029 \<or> c = 0x202F \<or>
      c = 0x205F \<or> c = 0x3000 \<or> c = 0xFEFF)"

definition trim :: "jsstring \<Rightarrow> jsstring" where
  "trim s = rev (dropWhile isWhiteSpace (rev (dropWhile isWhiteSpace s)))"

text \<open>The class \<open>[\x00-\x1F\x7F]\<close>.\<close>

definition isControl :: "16 word \<Rightarrow> bool" where
  "isControl c = (c \<le> 0x1F \<or> c = 0x7F)"

text \<open>The class \<open>\d\<close> (without the unicode flag: ASCII digits only).\<close>

definition isDigit :: "16 word \<Rightarrow> bool" where
  "isDigit c = (0x30 \<le> c \<and> c \<le> 0x39)"

text \<open>
  \<open>String.prototype.slice\<close> for the non-negative integer arguments the source uses.
\<close>

definition sliceJS :: "jsstring \<Rightarrow> nat \<Rightarrow> nat \<Rightarrow> jsstring" where
  "sliceJS s a b = take (b - a) (drop a s)"

definition sliceFrom :: "jsstring \<Rightarrow> nat \<Rightarrow> jsstring" where
  "sliceFrom s a = drop a s"

text \<open>\<open>String.prototype.split\<close> with a one-character separator.\<close>

fun split :: "16 word \<Rightarrow> jsstring \<Rightarrow> jsstring list" where
  "split sep [] = [[]]"
| "split sep (c # cs) =
     (if c = sep then [] # split sep cs
      else (case split sep cs of
              [] \<Rightarrow> [[c]]
            | p # ps \<Rightarrow> (c # p) # ps))"

text \<open>
  \<open>String.prototype.toLowerCase\<close>. On a string of ASCII code units it maps \<open>A\<close>..\<open>Z\<close>
  to \<open>a\<close>..\<open>z\<close> and leaves the rest. On other strings it is the Unicode default case
  conversion of the engine, which is not part of the repository: it is the parameter
  \<open>unicodeLower\<close>.
\<close>

definition isAscii :: "16 word \<Rightarrow> bool" where
  "isAscii c = (c \<le> 0x7F)"

definition asciiLower :: "16 word \<Rightarrow> 16 word" where
  "asciiLower c = (if 0x41 \<le> c \<and> c \<le> 0x5A then c + 0x20 else c)"

definition toLowerCase :: "(jsstring \<Rightarrow> jsstring) \<Rightarrow> jsstring \<Rightarrow> jsstring" where
  "toLowerCase unicodeLower s =
     (if list_all isAscii s then map asciiLower s else unicodeLower s)"

section \<open>Regular expressions\<close>

text \<open>
  The regular expressions of the source use character classes, concatenation,
  \<open>?\<close>, \<open>*\<close>, \<open>+\<close> and \<open>{m,n}\<close>, always anchored by \<open>^\<close> and \<open>$\<close> and without
  the \<open>g\<close> flag, so \<open>RegExp.prototype.test\<close> decides membership of the whole
  string in the language of the expression. Membership is computed with derivatives.
  A class is a list of inclusive ranges, as written between the brackets.
\<close>

datatype regex =
    Nul
  | Eps
  | Class "(16 word \<times> 16 word) list"
  | NClass "(16 word \<times> 16 word) list"
  | Seq regex regex
  | Alt regex regex
  | Star regex
  | Rep nat nat regex

definition inRanges :: "(16 word \<times> 16 word) list \<Rightarrow> 16 word \<Rightarrow> bool" where
  "inRanges rs c = list_ex (\<lambda>(lo, hi). lo \<le> c \<and> c \<le> hi) rs"

abbreviation Opt :: "regex \<Rightarrow> regex" where
  "Opt r \<equiv> Alt r Eps"

abbreviation Plus :: "regex \<Rightarrow> regex" where
  "Plus r \<equiv> Seq r (Star r)"

fun nullable :: "regex \<Rightarrow> bool" where
  "nullable Nul = False"
| "nullable Eps = True"
| "nullable (Class rs) = False"
| "nullable (NClass rs) = False"
| "nullable (Seq r s) = (nullable r \<and> nullable s)"
| "nullable (Alt r s) = (nullable r \<or> nullable s)"
| "nullable (Star r) = True"
| "nullable (Rep m n r) = (m = 0 \<or> nullable r)"

fun deriv :: "16 word \<Rightarrow> regex \<Rightarrow> regex" where
  "deriv c Nul = Nul"
| "deriv c Eps = Nul"
| "deriv c (Class rs) = (if inRanges rs c then Eps else Nul)"
| "deriv c (NClass rs) = (if inRanges rs c then Nul else Eps)"
| "deriv c (Seq r s) =
     (if nullable r then Alt (Seq (deriv c r) s) (deriv c s) else Seq (deriv c r) s)"
| "deriv c (Alt r s) = Alt (deriv c r) (deriv c s)"
| "deriv c (Star r) = Seq (deriv c r) (Star r)"
| "deriv c (Rep m n r) = (if n = 0 then Nul else Seq (deriv c r) (Rep (m - 1) (n - 1) r))"

fun matches :: "regex \<Rightarrow> jsstring \<Rightarrow> bool" where
  "matches r [] = nullable r"
| "matches r (c # cs) = matches (deriv c r) cs"

text \<open>The ranges of \<open>\s\<close> (the same code points as \<^const>\<open>isWhiteSpace\<close>).\<close>

definition whiteSpaceRanges :: "(16 word \<times> 16 word) list" where
  "whiteSpaceRanges =
     [(0x09, 0x0D), (0x20, 0x20), (0xA0, 0xA0), (0x1680, 0x1680), (0x2000, 0x200A),
      (0x2028, 0x2028), (0x2029, 0x2029), (0x202F, 0x202F), (0x205F, 0x205F), (0x3000, 0x3000),
      (0xFEFF, 0xFEFF)]"

section \<open>The validation module\<close>

text \<open>The constants of \<open>VALIDATION_CONFIG\<close>.\<close>

text \<open>
  \<open>EMAIL_REGEX\<close>:
  \<^verbatim>\<open>^[a-zA-Z0-9.!#$%&'*+/=?^_`{|}~-]+@[a-zA-Z0-9](?:[a-zA-Z0-9-]{0,61}[a-zA-Z0-9])?(?:\.[a-zA-Z0-9](?:[a-zA-Z0-9-]{0,61}[a-zA-Z0-9])?)*$\<close>
\<close>

definition alnumRanges :: "(16 word \<times> 16 word) list" where
  "alnumRanges = [(0x61, 0x7A), (0x41, 0x5A), (0x30, 0x39)]"

definition emailLocalRanges :: "(16 word \<times> 16 word) list" where
  "emailLocalRanges =
     alnumRanges @
     [(0x2E, 0x2E), (0x21, 0x21), (0x23, 0x23), (0x24, 0x24), (0x25, 0x25), (0x26, 0x26),
      (0x27, 0x27), (0x2A, 0x2A), (0x2B, 0x2B), (0x2F, 0x2F), (0x3D, 0x3D), (0x3F, 0x3F),
      (0x5E, 0x5E), (0x5F, 0x5F), (0x60, 0x60), (0x7B, 0x7B), (0x7C, 0x7C), (0x7D, 0x7D),
      (0x7E, 0x7E), (0x2D, 0x2D)]"

definition emailLabel :: regex where
  "emailLabel =
     Seq (Class alnumRanges)
         (Opt (Seq (Rep 0 61 (Class (alnumRanges @ [(0x2D, 0x2D)]))) (Class alnumRanges)))"

definition EMAIL_REGEX :: regex where
  "EMAIL_REGEX =
     Seq (Plus (Class emailLocalRanges))
       (Seq (Class [(0x40, 0x40)])
         (Seq emailLabel (Star (Seq (Class [(0x2E, 0x2E)]) emailLabel))))"

text \<open>\<open>PHONE_REGEX\<close>: \<^verbatim>\<open>^[\d\s\-\(\)]+$\<close>\<close>

definition phoneRanges :: "(16 word \<times> 16 word) list" where
  "phoneRanges = (0x30, 0x39) # whiteSpaceRanges @ [(0x2D, 0x2D), (0x28, 0x28), (0x29, 0x29)]"

definition PHONE_REGEX :: regex where
  "PHONE_REGEX = Plus (Class phoneRanges)"

definition MIN_PHONE_DIGITS :: nat where "MIN_PHONE_DIGITS = 10"
definition MAX_PHONE_DIGITS :: nat where "MAX_PHONE_DIGITS = 15"
definition MIN_MESSAGE_LENGTH :: nat where "MIN_MESSAGE_LENGTH = 10"
definition MAX_MESSAGE_LENGTH :: nat where "MAX_MESSAGE_LENGTH = 1000"
definition MIN_NAME_LENGTH :: nat where "MIN_NAME_LENGTH = 2"
definition MAX_NAME_LENGTH :: nat where "MAX_NAME_LENGTH = 100"

text \<open>The messages of \<open>ERROR_MESSAGES\<close>.\<close>

definition REQUIRED :: jsstring where
  "REQUIRED = js ''This field is required''"
definition EMAIL_INVALID :: jsstring where
  "EMAIL_INVALID = js ''Please enter a valid email address''"
definition EMAIL_FORMAT :: jsstring where
  "EMAIL_FORMAT = js ''Email must be in format: name@domain.com''"
definition PHONE_FORMAT :: jsstring where
  "PHONE_FORMAT = js ''Phone must contain 10-15 digits''"
definition PHONE_CHARACTERS :: jsstring where
  "PHONE_CHARACTERS = js ''Phone can only contain numbers, spaces, hyphens, and parentheses''"
definition NAME_TOO_SHORT :: jsstring where
  "NAME_TOO_SHORT = js ''Name must be at least 2 characters''"
definition NAME_TOO_LONG :: jsstring where
  "NAME_TOO_LONG = js ''Name cannot exceed 100 characters''"
definition MESSAGE_TOO_SHORT :: jsstring where
  "MESSAGE_TOO_SHORT = js ''Message must be at least 10 characters''"
definition MESSAGE_TOO_LONG :: jsstring where
  "MESSAGE_TOO_LONG = js ''Message cannot exceed 1000 characters''"
definition GRADE_INVALID :: jsstring where
  "GRADE_INVALID = js ''Please select a valid grade level''"

text \<open>
  \<open>ValidationResult\<close>: \<open>{isValid, error, value}\<close>, with \<open>null\<close> as \<open>None\<close>. The field
  \<open>value\<close> has the JSDoc type \<open>*\<close>: \<open>formatPhone\<close> may hand back its argument as it is.
\<close>

record ValidationResult =
  isValid :: bool
  error :: "jsstring option"
  resultValue :: jsval

definition sanitizeString :: "jsval \<Rightarrow> jsstring" where
  "sanitizeString v =
     (case v of
        JString s \<Rightarrow> filter (\<lambda>c. \<not> isControl c) (trim s)
      | _ \<Rightarrow> [])"

definition validateRequired :: "jsval \<Rightarrow> jsstring \<Rightarrow> ValidationResult" where
  "validateRequired v fieldName =
     (let sanitized = sanitizeString v in
      if length sanitized = 0
      then \<lparr>isValid = False, error = Some REQUIRED, resultValue = JString sanitized\<rparr>
      else \<lparr>isValid = True, error = None, resultValue = JString sanitized\<rparr>)"

definition validateEmail :: "(jsstring \<Rightarrow> jsstring) \<Rightarrow> jsval \<Rightarrow> bool \<Rightarrow> ValidationResult" where
  "validateEmail unicodeLower email required =
     (let sanitized = sanitizeString email in
      if sanitized = [] then
        (if required
         then \<lparr>isValid = False, error = Some REQUIRED, resultValue = JString sanitized\<rparr>
         else \<lparr>isValid = True, error = None, resultValue = JString sanitized\<rparr>)
      else if \<not> matches EMAIL_REGEX sanitized then
        \<lparr>isValid = False, error = Some EMAIL_INVALID, resultValue = JString sanitized\<rparr>
      else
        (let parts = split 0x40 sanitized in
         if length parts \<noteq> 2 \<or> parts ! 0 = [] \<or> parts ! 1 = [] then
           \<lparr>isValid = False, error = Some EMAIL_FORMAT, resultValue = JString sanitized\<rparr>
         else if length (parts ! 0) > 64 \<or> length (parts ! 1) > 255 then
           \<lparr>isValid = False, error = Some EMAIL_INVALID, resultValue = JString sanitized\<rparr>
         else
           \<lparr>isValid = True, error = None,
            resultValue = JString (toLowerCase unicodeLower sanitized)\<rparr>))"

definition normalizePhone :: "jsval \<Rightarrow> jsstring" where
  "normalizePhone phone =
     (case phone of
        JString s \<Rightarrow> filter isDigit s
      | _ \<Rightarrow> [])"

definition formatPhone :: "jsval \<Rightarrow> jsval" where
  "formatPhone phone =
     (let digits = normalizePhone phone in
      if length digits = 10 then
        JString (js ''('' @ sliceJS digits 0 3 @ js '') '' @ sliceJS digits 3 6 @ js ''-'' @
                 sliceFrom digits 6)
      else if length digits = 11 \<and> hd digits = 0x31 then
        JString (js ''+1 ('' @ sliceJS digits 1 4 @ js '') '' @ sliceJS digits 4 7 @ js ''-'' @
                 sliceFrom digits 7)
      else phone)"

definition validatePhone :: "jsval \<Rightarrow> bool \<Rightarrow> ValidationResult" where
  "validatePhone phone required =
     (let sanitized = sanitizeString phone in
      if sanitized = [] then
        (if required
         then \<lparr>isValid = False, error = Some REQUIRED, resultValue = JString sanitized\<rparr>
         else \<lparr>isValid = True, error = None, resultValue = JString sanitized\<rparr>)
      else if \<not> matches PHONE_REGEX sanitized then
        \<lparr>isValid = False, error = Some PHONE_CHARACTERS, resultValue = JString sanitized\<rparr>
      else
        (let digits = normalizePhone (JString sanitized) in
         if length digits < MIN_PHONE_DIGITS then
           \<lparr>isValid = False, error = Some PHONE_FORMAT, resultValue = JString sanitized\<rparr>
         else if length digits > MAX_PHONE_DIGITS then
           \<lparr>isValid = False, error = Some PHONE_FORMAT, resultValue = JString sanitized\<rparr>
         else
           \<lparr>isValid = True, error = None, resultValue = formatPhone (JString sanitized)\<rparr>))"

definition validateName :: "jsval \<Rightarrow> bool \<Rightarrow> ValidationResult" where
  "validateName name required =
     (let sanitized = sanitizeString name in
      if sanitized = [] then
        (if required
         then \<lparr>isValid = False, error = Some REQUIRED, resultValue = JString sanitized\<rparr>
         else \<lparr>isValid = True, error = None, resultValue = JString sanitized\<rparr>)
      else if length sanitized < MIN_NAME_LENGTH then
        \<lparr>isValid = False, error = Some NAME_TOO_SHORT, resultValue = JString sanitized\<rparr>
      else if length sanitized > MAX_NAME_LENGTH then
        \<lparr>isValid = False, error = Some NAME_TOO_LONG, resultValue = JString sanitized\<rparr>
      else \<lparr>isValid = True, error = None, resultValue = JString sanitized\<rparr>)"

definition validateMessage :: "jsval \<Rightarrow> bool \<Rightarrow> ValidationResult" where
  "validateMessage message required =
     (let sanitized = sanitizeString message in
      if sanitized = [] then
        (if required
         then \<lparr>isValid = False, error = Some REQUIRED, resultValue = JString sanitized\<rparr>
         else \<lparr>isValid = True, error = None, resultValue = JString sanitized\<rparr>)
      else if length sanitized < MIN_MESSAGE_LENGTH then
        \<lparr>isValid = False, error = Some MESSAGE_TOO_SHORT, resultValue = JString sanitized\<rparr>
      else if length sanitized > MAX_MESSAGE_LENGTH then
        \<lparr>isValid = False, error = Some MESSAGE_TOO_LONG, resultValue = JString sanitized\<rparr>
      else \<lparr>isValid = True, error = None, resultValue = JString sanitized\<rparr>)"

definition validGrades :: "jsstring list" where
  "validGrades =
     [js ''k'', js ''1'', js ''2'', js ''3'', js ''4'', js ''5'', js ''6'', js ''7'',
      js ''8'', js ''9'', js ''10'', js ''11'', js ''12'']"

definition validateGrade :: "(jsstring \<Rightarrow> jsstring) \<Rightarrow> jsval \<Rightarrow> bool \<Rightarrow> ValidationResult" where
  "validateGrade unicodeLower grade required =
     (let sanitized = sanitizeString grade in
      if sanitized = [] then
        (if required
         then \<lparr>isValid = False, error = Some REQUIRED, resultValue = JString sanitized\<rparr>
         else \<lparr>isValid = True, error = None, resultValue = JString sanitized\<rparr>)
      else if \<not> List.member validGrades (toLowerCase unicodeLower sanitized) then
        \<lparr>isValid = False, error = Some GRADE_INVALID, resultValue = JString sanitized\<rparr>
      else \<lparr>isValid = True, error = None, resultValue = JString sanitized\<rparr>)"

text \<open>
  \<open>validateField(value, type, options)\<close>. The options object is destructured with the
  defaults \<open>required = true\<close> and \<open>fieldName = 'Field'\<close>. No validator above raises, so
  the \<open>catch\<close> branch of the source is never entered.
\<close>

record FieldOptions =
  optRequired :: "bool option"
  optFieldName :: "jsstring option"

definition validateField ::
  "(jsstring \<Rightarrow> jsstring) \<Rightarrow> jsval \<Rightarrow> jsstring \<Rightarrow> FieldOptions \<Rightarrow> ValidationResult" where
  "validateField unicodeLower v type options =
     (let required = (case optRequired options of None \<Rightarrow> True | Some r \<Rightarrow> r);
          fieldName = (case optFieldName options of None \<Rightarrow> js ''Field'' | Some n \<Rightarrow> n)
      in
      if type = js ''email'' then validateEmail unicodeLower v required
      else if type = js ''tel'' \<or> type = js ''phone'' then validatePhone v required
      else if type = js ''textarea'' then validateMessage v required
      else if type = js ''select'' then validateGrade unicodeLower v required
      else if type = js ''text'' \<or> type = js ''name'' then validateName v required
      else validateRequired v fieldName)"

section \<open>The contact form module\<close>

text \<open>The constants of \<open>CONTACT_CONFIG\<close> that the handlers read.\<close>

definition HONEYPOT_FIELD :: jsstring where
  "HONEYPOT_FIELD = js ''website''"
definition CONTACT_MIN_MESSAGE_LENGTH :: nat where "CONTACT_MIN_MESSAGE_LENGTH = 10"
definition CONTACT_MAX_MESSAGE_LENGTH :: nat where "CONTACT_MAX_MESSAGE_LENGTH = 1000"

text \<open>The messages of the contact module's own \<open>ERROR_MESSAGES\<close>.\<close>

definition CONTACT_REQUIRED :: jsstring where
  "CONTACT_REQUIRED = js ''This field is required''"
definition INVALID_EMAIL :: jsstring where
  "INVALID_EMAIL = js ''Please enter a valid email address''"
definition INVALID_PHONE :: jsstring where
  "INVALID_PHONE = js ''Please enter a valid phone number (10 digits minimum)''"
definition CONTACT_MESSAGE_TOO_SHORT :: jsstring where
  "CONTACT_MESSAGE_TOO_SHORT = js ''Message must be at least 10 characters''"
definition CONTACT_MESSAGE_TOO_LONG :: jsstring where
  "CONTACT_MESSAGE_TOO_LONG = js ''Message must not exceed 1000 characters''"
definition INVALID_GRADE :: jsstring where
  "INVALID_GRADE = js ''Please select a valid grade level''"
definition SUBMISSION_FAILED :: jsstring where
  "SUBMISSION_FAILED = js ''Failed to submit form. Please try again.''"
definition NETWORK_ERROR :: jsstring where
  "NETWORK_ERROR = js ''Network error. Please check your connection and try again.''"

definition VALID_GRADES :: "jsstring list" where
  "VALID_GRADES =
     [js ''pre-k'', js ''kindergarten'', js ''grade-1'', js ''grade-2'', js ''grade-3'',
      js ''grade-4'', js ''grade-5'', js ''grade-6'', js ''grade-7'', js ''grade-8'',
      js ''grade-9'', js ''grade-10'', js ''grade-11'', js ''grade-12'']"

subsection \<open>\<open>validationRules\<close>\<close>

text \<open>
  The rules take \<open>field.value\<close>, which is always a string, and return \<open>{isValid, error}\<close>.
\<close>

record RuleResult =
  ruleValid :: bool
  ruleError :: "jsstring option"

definition validationRules_parentName :: "jsstring \<Rightarrow> RuleResult" where
  "validationRules_parentName v =
     (let trimmed = trim v in
      if trimmed = [] then \<lparr>ruleValid = False, ruleError = Some CONTACT_REQUIRED\<rparr>
      else if length trimmed < 2
      then \<lparr>ruleValid = False, ruleError = Some (js ''Name must be at least 2 characters'')\<rparr>
      else \<lparr>ruleValid = True, ruleError = None\<rparr>)"

text \<open>The rule's own \<open>emailRegex\<close>: \<^verbatim>\<open>^[^\s@]+@[^\s@]+\.[^\s@]+$\<close>\<close>

definition emailRegex :: regex where
  "emailRegex =
     (let notSpaceAt = NClass (whiteSpaceRanges @ [(0x40, 0x40)]) in
      Seq (Plus notSpaceAt)
        (Seq (Class [(0x40, 0x40)])
          (Seq (Plus notSpaceAt) (Seq (Class [(0x2E, 0x2E)]) (Plus notSpaceAt)))))"

definition validationRules_email :: "jsstring \<Rightarrow> RuleResult" where
  "validationRules_email v =
     (let trimmed = trim v in
      if trimmed = [] then \<lparr>ruleValid = False, ruleError = Some CONTACT_REQUIRED\<rparr>
      else if \<not> matches emailRegex trimmed
      then \<lparr>ruleValid = False, ruleError = Some INVALID_EMAIL\<rparr>
      else \<lparr>ruleValid = True, ruleError = None\<rparr>)"

definition validationRules_phone :: "jsstring \<Rightarrow> RuleResult" where
  "validationRules_phone v =
     (let trimmed = trim v in
      if trimmed = [] then \<lparr>ruleValid = True, ruleError = None\<rparr>
      else
        (let digitsOnly = filter isDigit trimmed in
         if length digitsOnly < 10
         then \<lparr>ruleValid = False, ruleError = Some INVALID_PHONE\<rparr>
         else \<lparr>ruleValid = True, ruleError = None\<rparr>))"

definition validationRules_gradeLevel :: "jsstring \<Rightarrow> RuleResult" where
  "validationRules_gradeLevel v =
     (let trimmed = trim v in
      if trimmed = [] then \<lparr>ruleValid = False, ruleError = Some CONTACT_REQUIRED\<rparr>
      else if \<not> List.member VALID_GRADES trimmed
      then \<lparr>ruleValid = False, ruleError = Some INVALID_GRADE\<rparr>
      else \<lparr>ruleValid = True, ruleError = None\<rparr>)"

definition validationRules_message :: "jsstring \<Rightarrow> RuleResult" where
  "validationRules_message v =
     (let trimmed = trim v in
      if trimmed = [] then \<lparr>ruleValid = False, ruleError = Some CONTACT_REQUIRED\<rparr>
      else if length trimmed < CONTACT_MIN_MESSAGE_LENGTH
      then \<lparr>ruleValid = False, ruleError = Some CONTACT_MESSAGE_TOO_SHORT\<rparr>
      else if length trimmed > CONTACT_MAX_MESSAGE_LENGTH
      then \<lparr>ruleValid = False, ruleError = Some CONTACT_MESSAGE_TOO_LONG\<rparr>
      else \<lparr>ruleValid = True, ruleError = None\<rparr>)"

text \<open>
  \<open>validationRules[fieldName]\<close>: the five rules the object defines. (A field named after
  a member of \<open>Object.prototype\<close> would find that member instead; such forms are outside
  this model.)
\<close>

definition validationRules :: "jsstring \<Rightarrow> (jsstring \<Rightarrow> RuleResult) option" where
  "validationRules fieldName =
     (if fieldName = js ''parentName'' then Some validationRules_parentName
      else if fieldName = js ''email'' then Some validationRules_email
      else if fieldName = js ''phone'' then Some validationRules_phone
      else if fieldName = js ''gradeLevel'' then Some validationRules_gradeLevel
      else if fieldName = js ''message'' then Some validationRules_message
      else None)"

subsection \<open>The page and the module state\<close>

text \<open>
  The part of the page the handlers touch. A form field is an element with a \<open>name\<close>
  attribute; its error element is the one named by \<open>aria-describedby\<close>, when there is one.
  \<open>console\<close> output, \<open>event.preventDefault()\<close> and the timers that later hide a notice or
  remove an announcement are not part of the state.
\<close>

record ErrorElement =
  errorText :: jsstring
  errorVisible :: bool

record Field =
  fieldName :: jsstring
  fieldValue :: jsstring
  defaultValue :: jsstring
  errorClass :: bool
  ariaInvalid :: bool
  errorElement :: "ErrorElement option"

record Button =
  disabled :: bool
  buttonText :: jsstring
  ariaBusy :: bool

datatype Notice = OtherContent | SuccessNotice | ErrorNotice jsstring

record Container =
  content :: Notice
  containerVisible :: bool

text \<open>\<open>formState\<close>.\<close>

record FormState =
  isSubmitting :: bool
  validationErrors :: "jsstring \<rightharpoonup> jsstring"
  touchedFields :: "jsstring set"

type_synonym FormData = "jsstring \<rightharpoonup> jsstring"

text \<open>The calls of the handlers that matter below, logged in the order they are made.\<close>

datatype Call =
    ValidateFieldCall jsstring
  | SubmitFormDataCall FormData
  | ShowSuccessMessageCall
  | ShowErrorMessageCall jsstring

record World =
  formState :: FormState
  formFields :: "Field list"
  submitButton :: "Button option"
  messageContainer :: "Container option"
  focused :: "nat option"
  announcements :: "jsstring list"
  calls :: "Call list"
  isoNow :: jsstring
  userAgent :: jsstring

definition announceToScreenReader :: "jsstring \<Rightarrow> World \<Rightarrow> World" where
  "announceToScreenReader message w = w\<lparr>announcements := announcements w @ [message]\<rparr>"

text \<open>\<open>showFieldError\<close> and \<open>clearFieldError\<close>, for the field at index \<open>i\<close> of the form.\<close>

definition showFieldError :: "nat \<Rightarrow> jsstring \<Rightarrow> World \<Rightarrow> World" where
  "showFieldError i errorMessage w =
     (let field = formFields w ! i;
          field1 = field\<lparr>errorClass := True, ariaInvalid := True\<rparr>;
          w1 = (case errorElement field of
                  None \<Rightarrow> w\<lparr>formFields := (formFields w)[i := field1]\<rparr>
                | Some el \<Rightarrow>
                    announceToScreenReader errorMessage
                      (w\<lparr>formFields := (formFields w)[i := field1\<lparr>errorElement :=
                           Some (el\<lparr>errorText := errorMessage, errorVisible := True\<rparr>)\<rparr>]\<rparr>))
      in w1\<lparr>formState := (formState w1)\<lparr>validationErrors :=
              (validationErrors (formState w1))(fieldName field \<mapsto> errorMessage)\<rparr>\<rparr>)"

definition clearFieldError :: "nat \<Rightarrow> World \<Rightarrow> World" where
  "clearFieldError i w =
     (let field = formFields w ! i;
          field1 = field\<lparr>errorClass := False, ariaInvalid := False,
                     errorElement := map_option (\<lambda>el. el\<lparr>errorText := [], errorVisible := False\<rparr>)
                                       (errorElement field)\<rparr>
      in w\<lparr>formFields := (formFields w)[i := field1],
           formState := (formState w)\<lparr>validationErrors :=
              (validationErrors (formState w))(fieldName field := None)\<rparr>\<rparr>)"

text \<open>
  The contact module's \<open>validateField(field)\<close>, for the field at index \<open>i < length (formFields w)\<close>.
  An invalid result of a rule always carries its message.
\<close>

definition contact_validateField :: "nat \<Rightarrow> World \<Rightarrow> bool \<times> World" where
  "contact_validateField i w =
     (let field = formFields w ! i;
          w0 = w\<lparr>calls := calls w @ [ValidateFieldCall (fieldName field)]\<rparr>
      in
      if fieldName field = [] then (False, w0)
      else
        (let w1 = clearFieldError i w0 in
         case validationRules (fieldName field) of
           None \<Rightarrow> (True, w1)
         | Some validator \<Rightarrow>
             (let result = validator (fieldValue field) in
              if \<not> ruleValid result
              then (False, showFieldError i (case ruleError result of None \<Rightarrow> [] | Some m \<Rightarrow> m) w1)
              else (True, w1))))"

text \<open>
  \<open>validateForm\<close>: the \<open>forEach\<close> over the named fields other than the honeypot, carrying
  \<open>isValid\<close> and \<open>firstInvalidField\<close>.
\<close>

fun validateEach :: "nat list \<Rightarrow> bool \<times> nat option \<times> World \<Rightarrow> bool \<times> nat option \<times> World" where
  "validateEach [] acc = acc"
| "validateEach (i # is) (isValid', firstInvalidField, w) =
     (let (fieldValid, w1) = contact_validateField i w in
      if \<not> fieldValid
      then validateEach is
             (False, (case firstInvalidField of None \<Rightarrow> Some i | Some j \<Rightarrow> Some j), w1)
      else validateEach is (isValid', firstInvalidField, w1))"

definition validateForm :: "World \<Rightarrow> bool \<times> World" where
  "validateForm w =
     (let indices = filter (\<lambda>i. fieldName (formFields w ! i) \<noteq> HONEYPOT_FIELD)
                      [0 ..< length (formFields w)];
          (isValid', firstInvalidField, w1) = validateEach indices (True, None, w)
      in
      if \<not> isValid' \<and> firstInvalidField \<noteq> None
      then (isValid', w1\<lparr>focused := firstInvalidField\<rparr>)
      else (isValid', w1))"

text \<open>
  \<open>checkHoneypot\<close>: \<open>querySelector\<close> yields the first element named \<open>website\<close>.
\<close>

definition checkHoneypot :: "World \<Rightarrow> bool" where
  "checkHoneypot w =
     (case find (\<lambda>f. fieldName f = HONEYPOT_FIELD) (formFields w) of
        None \<Rightarrow> True
      | Some honeypotField \<Rightarrow>
          (let isSpam = (trim (fieldValue honeypotField) \<noteq> []) in \<not> isSpam))"

text \<open>
  \<open>collectFormData\<close>: the entries of \<open>FormData\<close> in document order (controls with an empty
  name have no entry), then the timestamp and the user agent.
\<close>

definition collectFormData :: "World \<Rightarrow> FormData" where
  "collectFormData w =
     (let data = fold (\<lambda>f d. if fieldName f \<noteq> HONEYPOT_FIELD
                              then d(fieldName f \<mapsto> trim (fieldValue f)) else d)
                   (filter (\<lambda>f. fieldName f \<noteq> []) (formFields w)) Map.empty
      in data(js ''timestamp'' \<mapsto> isoNow w, js ''userAgent'' \<mapsto> userAgent w))"

definition showSuccessMessage :: "World \<Rightarrow> World" where
  "showSuccessMessage w =
     (let w0 = w\<lparr>calls := calls w @ [ShowSuccessMessageCall]\<rparr> in
      case messageContainer w0 of
        None \<Rightarrow> w0
      | Some container \<Rightarrow>
          announceToScreenReader
            (js ''Form submitted successfully. We will contact you within 24 hours.'')
            (w0\<lparr>messageContainer :=
                  Some (container\<lparr>content := SuccessNotice, containerVisible := True\<rparr>)\<rparr>))"

definition showErrorMessage :: "jsstring \<Rightarrow> World \<Rightarrow> World" where
  "showErrorMessage message w =
     (let w0 = w\<lparr>calls := calls w @ [ShowErrorMessageCall message]\<rparr> in
      case messageContainer w0 of
        None \<Rightarrow> w0
      | Some container \<Rightarrow>
          announceToScreenReader (js ''Error: '' @ message)
            (w0\<lparr>messageContainer :=
                  Some (container\<lparr>content := ErrorNotice message, containerVisible := True\<rparr>)\<rparr>))"

subsection \<open>\<open>handleFormSubmit\<close>\<close>

text \<open>
  What the promise of \<open>submitFormData\<close> settles with: a result object
  \<open>{success, message}\<close> (the message may be absent or empty), or a rejection. A rejection
  reason is an object with a \<open>message\<close> (possibly empty or absent), or \<open>null\<close>/\<open>undefined\<close>.
\<close>

record SubmitResult =
  resultSuccess :: bool
  resultMessage :: jsstring

datatype Reason = ErrorObject jsstring | Nullish

datatype Outcome = Resolved SubmitResult | Rejected Reason

text \<open>
  The source's \<open>submitFormData\<close> is a stub without a backend: after 1.5 s it resolves with
  \<open>success: true\<close>.
\<close>

definition submitFormData :: "FormData \<Rightarrow> Outcome" where
  "submitFormData data = Resolved \<lparr>resultSuccess = True, resultMessage = js ''Form submitted successfully''\<rparr>"

text \<open>
  \<open>handleFormSubmit\<close> is an async function with one \<open>await\<close>. Its first part runs to the
  \<open>await\<close> and either returns without a call, or leaves a pending submission (the data
  sent and the captured \<open>originalButtonText\<close>). Its second part runs when the promise
  settles.
\<close>

record Pending =
  sentData :: FormData
  originalButtonText :: jsstring

definition handleFormSubmit :: "World \<Rightarrow> World \<times> Pending option" where
  "handleFormSubmit w =
     (if isSubmitting (formState w) then (w, None)
      else if \<not> checkHoneypot w then (w, None)
      else
        (let (formValid, w1) = validateForm w in
         if \<not> formValid then (w1, None)
         else
           (let w2 = w1\<lparr>formState := (formState w1)\<lparr>isSubmitting := True\<rparr>\<rparr>;
                originalText = (case submitButton w2 of None \<Rightarrow> [] | Some b \<Rightarrow> buttonText b);
                w3 = w2\<lparr>submitButton :=
                          map_option (\<lambda>b. b\<lparr>disabled := True, buttonText := js ''Sending...'',
                                             ariaBusy := True\<rparr>) (submitButton w2)\<rparr>;
                formData = collectFormData w3;
                w4 = w3\<lparr>calls := calls w3 @ [SubmitFormDataCall formData]\<rparr>
            in (w4, Some \<lparr>sentData = formData, originalButtonText = originalText\<rparr>))))"

text \<open>The body of the \<open>catch\<close> block; \<open>error.message\<close> of \<open>null\<close> raises inside it.\<close>

definition catchBlock :: "Reason \<Rightarrow> World \<Rightarrow> World" where
  "catchBlock reason w =
     (case reason of
        Nullish \<Rightarrow> w
      | ErrorObject msg \<Rightarrow> showErrorMessage (if msg \<noteq> [] then msg else NETWORK_ERROR) w)"

text \<open>The body of the \<open>finally\<close> block.\<close>

definition finallyBlock :: "Pending \<Rightarrow> World \<Rightarrow> World" where
  "finallyBlock p w =
     (let w1 = w\<lparr>formState := (formState w)\<lparr>isSubmitting := False\<rparr>\<rparr> in
      w1\<lparr>submitButton :=
            map_option (\<lambda>b. b\<lparr>disabled := False, buttonText := originalButtonText p,
                               ariaBusy := False\<rparr>) (submitButton w1)\<rparr>)"

definition formReset :: "World \<Rightarrow> World" where
  "formReset w = w\<lparr>formFields := map (\<lambda>f. f\<lparr>fieldValue := defaultValue f\<rparr>) (formFields w)\<rparr>"

text \<open>
  The \<open>try\<close> block after the \<open>await\<close>, with its \<open>catch\<close>: a result without \<open>success\<close>
  is thrown as an \<open>Error\<close> carrying the result's message or \<open>SUBMISSION_FAILED\<close>.
\<close>

definition tryCatchBlock :: "Outcome \<Rightarrow> World \<Rightarrow> World" where
  "tryCatchBlock outcome w =
     (case outcome of
        Resolved result \<Rightarrow>
          if resultSuccess result then
            (let w1 = formReset w in
             showSuccessMessage
               (w1\<lparr>formState := (formState w1)\<lparr>validationErrors := Map.empty,
                                                 touchedFields := {}\<rparr>\<rparr>))
          else
            catchBlock
              (ErrorObject (if resultMessage result \<noteq> [] then resultMessage result
                            else SUBMISSION_FAILED)) w
      | Rejected reason \<Rightarrow> catchBlock reason w)"

definition handleFormSubmit_settled :: "Outcome \<Rightarrow> Pending \<Rightarrow> World \<Rightarrow> World" where
  "handleFormSubmit_settled outcome p w = finallyBlock p (tryCatchBlock outcome w)"

subsection \<open>The other handlers and the event loop\<close>

definition handleFieldBlur :: "nat \<Rightarrow> World \<Rightarrow> World" where
  "handleFieldBlur i w =
     (let w1 = w\<lparr>formState := (formState w)\<lparr>touchedFields :=
                  insert (fieldName (formFields w ! i)) (touchedFields (formState w))\<rparr>\<rparr>
      in snd (contact_validateField i w1))"

text \<open>The debounced \<open>handleFieldInput\<close>, when its timer fires.\<close>

definition handleFieldInput :: "nat \<Rightarrow> World \<Rightarrow> World" where
  "handleFieldInput i w =
     (if fieldName (formFields w ! i) \<in> touchedFields (formState w)
      then snd (contact_validateField i w) else w)"

text \<open>
  The page as a system: the user submits, edits a field or leaves it, a validation timer
  fires, or the oldest pending promise settles. Events on a field that does not exist and
  settlements without a pending promise do not happen.
\<close>

datatype Event =
    SubmitEvent
  | SettleEvent Outcome
  | EditEvent nat jsstring
  | BlurEvent nat
  | InputTimerEvent nat

record System =
  world :: World
  inFlight :: "Pending list"

fun step :: "Event \<Rightarrow> System \<Rightarrow> System" where
  "step SubmitEvent s =
     (let (w, p) = handleFormSubmit (world s) in
      s\<lparr>world := w, inFlight := inFlight s @ (case p of None \<Rightarrow> [] | Some x \<Rightarrow> [x])\<rparr>)"
| "step (SettleEvent outcome) s =
     (case inFlight s of
        [] \<Rightarrow> s
      | p # ps \<Rightarrow> s\<lparr>world := handleFormSubmit_settled outcome p (world s), inFlight := ps\<rparr>)"
| "step (EditEvent i v) s =
     (if i < length (formFields (world s))
      then s\<lparr>world := (world s)\<lparr>formFields := (formFields (world s))[i := (formFields (world s) ! i)\<lparr>fieldValue := v\<rparr>]\<rparr>\<rparr>
      else s)"
| "step (BlurEvent i) s =
     (if i < length (formFields (world s)) then s\<lparr>world := handleFieldBlur i (world s)\<rparr> else s)"
| "step (InputTimerEvent i) s =
     (if i < length (formFields (world s)) then s\<lparr>world := handleFieldInput i (world s)\<rparr> else s)"

fun run :: "Event list \<Rightarrow> System \<Rightarrow> System" where
  "run [] s = s"
| "run (e # es) s = run es (step e s)"

text \<open>When the script is loaded: \<open>formState\<close> as the source initialises it, nothing pending.\<close>

definition initialFormState :: FormState where
  "initialFormState = \<lparr>isSubmitting = False, validationErrors = Map.empty, touchedFields = {}\<rparr>"

definition initialSystem :: "World \<Rightarrow> System" where
  "initialSystem page = \<lparr>world = page\<lparr>formState := initialFormState\<rparr>, inFlight = []\<rparr>"

section \<open>Notions used to state the properties\<close>

text \<open>The characters \<open>PHONE_REGEX\<close> allows: a digit, \<open>\s\<close>, a hyphen or a parenthesis.\<close>

definition isPhoneChar :: "16 word \<Rightarrow> bool" where
  "isPhoneChar c = (isDigit c \<or> isWhiteSpace c \<or> c = 0x2D \<or> c = 0x28 \<or> c = 0x29)"

text \<open>The display form of ten digits: \<open>(ddd) ddd-dddd\<close>.\<close>

definition displayTen :: "jsstring \<Rightarrow> jsstring" where
  "displayTen ds = js ''('' @ take 3 ds @ js '') '' @ take 3 (drop 3 ds) @ js ''-'' @ drop 6 ds"

text \<open>
  Expressions that can only match ASCII strings, and expressions that match nothing.
\<close>

fun asciiOnly :: "regex \<Rightarrow> bool" where
  "asciiOnly Nul = True"
| "asciiOnly Eps = True"
| "asciiOnly (Class rs) = list_all (\<lambda>(lo, hi). hi \<le> 0x7F) rs"
| "asciiOnly (NClass rs) = False"
| "asciiOnly (Seq r s) = (asciiOnly r \<and> asciiOnly s)"
| "asciiOnly (Alt r s) = (asciiOnly r \<and> asciiOnly s)"
| "asciiOnly (Star r) = asciiOnly r"
| "asciiOnly (Rep m n r) = asciiOnly r"

fun dead :: "regex \<Rightarrow> bool" where
  "dead Nul = True"
| "dead (Seq r s) = (dead r \<or> dead s)"
| "dead (Alt r s) = (dead r \<and> dead s)"
| "dead r = False"

text \<open>
  The submission flag is set exactly while one submission is pending, and no more than
  one is.
\<close>

definition oneInFlight :: "System \<Rightarrow> bool" where
  "oneInFlight s =
     (length (inFlight s) \<le> 1 \<and> isSubmitting (formState (world s)) = (inFlight s \<noteq> []))"

text \<open>
  Two pages: a submission whose hidden \<open>website\<close> field a bot has filled and whose other
  fields are invalid, and the enquiry of a parent with every field valid.
\<close>

definition exampleField :: "string \<Rightarrow> string \<Rightarrow> Field" where
  "exampleField name v =
     \<lparr>fieldName = js name, fieldValue = js v, defaultValue = [], errorClass = False,
      ariaInvalid = False, errorElement = Some \<lparr>errorText = [], errorVisible = False\<rparr>\<rparr>"

definition examplePage :: "Field list \<Rightarrow> World" where
  "examplePage fs =
     \<lparr>formState = initialFormState, formFields = fs,
      submitButton = Some \<lparr>disabled = False, buttonText = js ''Send Message'', ariaBusy = False\<rparr>,
      messageContainer = Some \<lparr>content = OtherContent, containerVisible = False\<rparr>,
      focused = None, announcements = [], calls = [],
      isoNow = js ''2024-01-01T00:00:00.000Z'', userAgent = js ''Mozilla/5.0''\<rparr>"

definition spamPage :: World where
  "spamPage = examplePage
     [exampleField ''parentName'' ''J'', exampleField ''email'' ''bad-email'',
      exampleField ''message'' ''short'', exampleField ''website'' ''http://spam.example'']"

definition enquiryPage :: World where
  "enquiryPage = examplePage
     [exampleField ''parentName'' ''Jordan Lee'', exampleField ''email'' ''jordan@example.com'',
      exampleField ''phone'' ''4155551234'', exampleField ''gradeLevel'' ''grade-5'',
      exampleField ''message'' ''We are interested in your curriculum.'',
      exampleField ''website'' '''']"

section \<open>Properties\<close>

subsection \<open>Facts about the string primitives\<close>

lemma sanitizeString_nonstring: "\<not> isString v \<Longrightarrow> sanitizeString v = []"
  by (cases v) (simp_all add: sanitizeString_def)

lemma normalizePhone_nonstring: "\<not> isString v \<Longrightarrow> normalizePhone v = []"
  by (cases v) (simp_all add: normalizePhone_def)

lemma trim_Nil: "trim [] = []"
  by (simp add: trim_def)

lemma sanitizeString_empty: "sanitizeString (JString []) = []"
  by (simp add: sanitizeString_def trim_Nil)

lemma toLowerCase_Nil: "toLowerCase f [] = []"
  by (simp add: toLowerCase_def)

lemma formatPhone_empty: "formatPhone (JString []) = JString []"
  by (simp add: formatPhone_def normalizePhone_def)

subsection \<open>Non-string inputs\<close>

lemma validateRequired_cong: "sanitizeString v = sanitizeString v' \<Longrightarrow> validateRequired v n = validateRequired v' n"
  by (simp add: validateRequired_def)
lemma validateEmail_cong: "sanitizeString v = sanitizeString v' \<Longrightarrow> validateEmail f v r = validateEmail f v' r"
  by (simp add: validateEmail_def)
lemma validatePhone_cong: "sanitizeString v = sanitizeString v' \<Longrightarrow> validatePhone v r = validatePhone v' r"
  by (simp add: validatePhone_def)
lemma validateName_cong: "sanitizeString v = sanitizeString v' \<Longrightarrow> validateName v r = validateName v' r"
  by (simp add: validateName_def)
lemma validateMessage_cong: "sanitizeString v = sanitizeString v' \<Longrightarrow> validateMessage v r = validateMessage v' r"
  by (simp add: validateMessage_def)
lemma validateGrade_cong: "sanitizeString v = sanitizeString v' \<Longrightarrow> validateGrade f v r = validateGrade f v' r"
  by (simp add: validateGrade_def)
lemma validateField_cong: "sanitizeString v = sanitizeString v' \<Longrightarrow> validateField f v t opts = validateField f v' t opts"
  unfolding validateField_def Let_def
  by (simp only: validateRequired_cong [of v v'] validateEmail_cong [of v v']
      validatePhone_cong [of v v'] validateName_cong [of v v'] validateMessage_cong [of v v']
      validateGrade_cong [of v v'])

text \<open>
  Claim C10. For every value that is not a string (\<open>null\<close>, \<open>undefined\<close>, a number, an
  object), \<open>sanitizeString\<close> and \<open>normalizePhone\<close> return the empty string, and every
  validator of the validation module, all of which start by sanitizing, returns on that
  value exactly the result it returns on the empty string.
\<close>

theorem nonstring_like_empty:
  assumes "\<not> isString v"
  shows "sanitizeString v = [] \<and> normalizePhone v = [] \<and>
         validateRequired v fname = validateRequired (JString []) fname \<and>
         validateEmail unicodeLower v required = validateEmail unicodeLower (JString []) required \<and>
         validatePhone v required = validatePhone (JString []) required \<and>
         validateName v required = validateName (JString []) required \<and>
         validateMessage v required = validateMessage (JString []) required \<and>
         validateGrade unicodeLower v required = validateGrade unicodeLower (JString []) required \<and>
         validateField unicodeLower v type options = validateField unicodeLower (JString []) type options"
proof -
  have eq: "sanitizeString v = sanitizeString (JString [])"
    using assms by (simp add: sanitizeString_nonstring sanitizeString_empty)
  have s: "sanitizeString v = []"
    using assms by (rule sanitizeString_nonstring)
  have n: "normalizePhone v = []"
    using assms by (rule normalizePhone_nonstring)
  show ?thesis
    using s n validateRequired_cong [OF eq] validateEmail_cong [OF eq] validatePhone_cong [OF eq]
      validateName_cong [OF eq] validateMessage_cong [OF eq] validateGrade_cong [OF eq]
      validateField_cong [OF eq]
    by blast
qed

text \<open>
  The theorem at \<open>null\<close>, at a number and at \<open>undefined\<close>.
\<close>

theorem nonstring_like_empty_witness:
  "\<not> isString JNull \<and> sanitizeString JNull = [] \<and> normalizePhone JNull = [] \<and>
   validateRequired JNull (js ''Field'') =
     \<lparr>isValid = False, error = Some REQUIRED, resultValue = JString []\<rparr> \<and>
   validatePhone (JNumber 42) False =
     \<lparr>isValid = True, error = None, resultValue = JString []\<rparr> \<and>
   validateMessage JUndefined True = validateMessage (JString []) True"
  using nonstring_like_empty [of JNull "js ''Field''" id True "js ''text''" "\<lparr>optRequired = None, optFieldName = None\<rparr>"]
    nonstring_like_empty [of "JNumber 42" "js ''Field''" id False "js ''text''" "\<lparr>optRequired = None, optFieldName = None\<rparr>"]
    nonstring_like_empty [of "JUndefined" "js ''Field''" id True "js ''text''" "\<lparr>optRequired = None, optFieldName = None\<rparr>"]
  by (simp add: validateRequired_def validatePhone_def sanitizeString_empty)

subsection \<open>Message length bounds\<close>




subsection \<open>The value of a validation result\<close>

text \<open>
  The claim as stated fails for an accepted phone number: the value returned for
  \<open>"4155551234"\<close> is the display form \<open>"(415) 555-1234"\<close>, not the sanitized input.
\<close>

theorem result_value_counterexample:
  "isValid (validatePhone (JString (js ''4155551234'')) False) \<and>
   sanitizeString (JString (js ''4155551234'')) = js ''4155551234'' \<and>
   resultValue (validatePhone (JString (js ''4155551234'')) False) = JString (js ''(415) 555-1234'') \<and>
   resultValue (validatePhone (JString (js ''4155551234'')) False) \<noteq>
     JString (sanitizeString (JString (js ''4155551234'')))"
  by (simp add: validatePhone_def sanitizeString_def trim_def js_def isWhiteSpace_def
      isControl_def PHONE_REGEX_def phoneRanges_def whiteSpaceRanges_def inRanges_def Let_def
      normalizePhone_def isDigit_def MIN_PHONE_DIGITS_def MAX_PHONE_DIGITS_def formatPhone_def
      sliceJS_def sliceFrom_def)

text \<open>
  Claim C4, as amended. For every validator of the validation module and every input,
  the \<open>value\<close> of an invalid result is the sanitized input. The \<open>value\<close> of a valid result
  is the sanitized input for \<open>validateRequired\<close>, \<open>validateName\<close>, \<open>validateMessage\<close> and
  \<open>validateGrade\<close>, the lower-cased sanitized input for \<open>validateEmail\<close>, and
  \<open>formatPhone\<close> of the sanitized input for \<open>validatePhone\<close>. \<open>validateField\<close> returns the
  result of the validator its type selects (\<open>email\<close>: \<open>validateEmail\<close>; \<open>tel\<close>, \<open>phone\<close>:
  \<open>validatePhone\<close>; \<open>textarea\<close>: \<open>validateMessage\<close>; \<open>select\<close>: \<open>validateGrade\<close>; \<open>text\<close>,
  \<open>name\<close>: \<open>validateName\<close>; any other: \<open>validateRequired\<close>), so the \<open>value\<close> of a valid
  result is the lower-cased sanitized input for the type \<open>email\<close>, \<open>formatPhone\<close> of the
  sanitized input for the types \<open>tel\<close> and \<open>phone\<close>, and the sanitized input for every
  other type.
\<close>

theorem result_value:
  "resultValue (validateRequired v fname) = JString (sanitizeString v) \<and>
   resultValue (validateName v required) = JString (sanitizeString v) \<and>
   resultValue (validateMessage v required) = JString (sanitizeString v) \<and>
   resultValue (validateGrade unicodeLower v required) = JString (sanitizeString v) \<and>
   resultValue (validateEmail unicodeLower v required) =
     (if isValid (validateEmail unicodeLower v required)
      then JString (toLowerCase unicodeLower (sanitizeString v))
      else JString (sanitizeString v)) \<and>
   resultValue (validatePhone v required) =
     (if isValid (validatePhone v required)
      then formatPhone (JString (sanitizeString v))
      else JString (sanitizeString v)) \<and>
   validateField unicodeLower v type options =
     (if type = js ''email''
      then validateEmail unicodeLower v (case optRequired options of None \<Rightarrow> True | Some r \<Rightarrow> r)
      else if type = js ''tel'' \<or> type = js ''phone''
      then validatePhone v (case optRequired options of None \<Rightarrow> True | Some r \<Rightarrow> r)
      else if type = js ''textarea''
      then validateMessage v (case optRequired options of None \<Rightarrow> True | Some r \<Rightarrow> r)
      else if type = js ''select''
      then validateGrade unicodeLower v (case optRequired options of None \<Rightarrow> True | Some r \<Rightarrow> r)
      else if type = js ''text'' \<or> type = js ''name''
      then validateName v (case optRequired options of None \<Rightarrow> True | Some r \<Rightarrow> r)
      else validateRequired v (case optFieldName options of None \<Rightarrow> js ''Field'' | Some n \<Rightarrow> n)) \<and>
   resultValue (validateField unicodeLower v type options) =
     (if \<not> isValid (validateField unicodeLower v type options)
      then JString (sanitizeString v)
      else if type = js ''email''
      then JString (toLowerCase unicodeLower (sanitizeString v))
      else if type = js ''tel'' \<or> type = js ''phone''
      then formatPhone (JString (sanitizeString v))
      else JString (sanitizeString v))"
proof -
  have r: "resultValue (validateRequired v n) = JString (sanitizeString v)" for n
    by (simp add: validateRequired_def Let_def)
  have n: "resultValue (validateName v q) = JString (sanitizeString v)" for q
    by (simp add: validateName_def Let_def)
  have m: "resultValue (validateMessage v q) = JString (sanitizeString v)" for q
    by (simp add: validateMessage_def Let_def)
  have g: "resultValue (validateGrade unicodeLower v q) = JString (sanitizeString v)" for q
    by (simp add: validateGrade_def Let_def)
  have e: "resultValue (validateEmail unicodeLower v q) =
     (if isValid (validateEmail unicodeLower v q)
      then JString (toLowerCase unicodeLower (sanitizeString v))
      else JString (sanitizeString v))" for q
    by (simp add: validateEmail_def Let_def toLowerCase_Nil)
  have p: "resultValue (validatePhone v q) =
     (if isValid (validatePhone v q)
      then formatPhone (JString (sanitizeString v))
      else JString (sanitizeString v))" for q
    by (simp add: validatePhone_def Let_def formatPhone_empty)
  have d: "validateField unicodeLower v type options =
     (if type = js ''email''
      then validateEmail unicodeLower v (case optRequired options of None \<Rightarrow> True | Some r \<Rightarrow> r)
      else if type = js ''tel'' \<or> type = js ''phone''
      then validatePhone v (case optRequired options of None \<Rightarrow> True | Some r \<Rightarrow> r)
      else if type = js ''textarea''
      then validateMessage v (case optRequired options of None \<Rightarrow> True | Some r \<Rightarrow> r)
      else if type = js ''select''
      then validateGrade unicodeLower v (case optRequired options of None \<Rightarrow> True | Some r \<Rightarrow> r)
      else if type = js ''text'' \<or> type = js ''name''
      then validateName v (case optRequired options of None \<Rightarrow> True | Some r \<Rightarrow> r)
      else validateRequired v (case optFieldName options of None \<Rightarrow> js ''Field'' | Some n \<Rightarrow> n))"
    by (simp add: validateField_def Let_def)
  have f: "resultValue (validateField unicodeLower v type options) =
     (if \<not> isValid (validateField unicodeLower v type options)
      then JString (sanitizeString v)
      else if type = js ''email''
      then JString (toLowerCase unicodeLower (sanitizeString v))
      else if type = js ''tel'' \<or> type = js ''phone''
      then formatPhone (JString (sanitizeString v))
      else JString (sanitizeString v))"
    unfolding validateField_def Let_def
    by (simp add: r n m g e p)
  show ?thesis
    using r n m g e p d f by blast
qed

text \<open>
  The theorem at a rejected email address, whose value is the sanitized input, and at an
  accepted phone number, whose value is the display form, both through \<open>validateField\<close>.
\<close>

theorem result_value_witness:
  "\<not> isValid (validateField id (JString (js '' not-an-email '')) (js ''email'')
        \<lparr>optRequired = None, optFieldName = None\<rparr>) \<and>
   resultValue (validateField id (JString (js '' not-an-email '')) (js ''email'')
        \<lparr>optRequired = None, optFieldName = None\<rparr>) = JString (js ''not-an-email'') \<and>
   isValid (validateField id (JString (js ''4155551234'')) (js ''tel'')
        \<lparr>optRequired = Some False, optFieldName = None\<rparr>) \<and>
   resultValue (validateField id (JString (js ''4155551234'')) (js ''tel'')
        \<lparr>optRequired = Some False, optFieldName = None\<rparr>) = JString (js ''(415) 555-1234'') \<and>
   isValid (validatePhone (JString (js ''4155551234'')) False) \<and>
   resultValue (validatePhone (JString (js ''4155551234'')) False) = JString (js ''(415) 555-1234'')"
  using result_value [of "JString (js '' not-an-email '')" "js ''Field''" True id "js ''email''" "\<lparr>optRequired = None, optFieldName = None\<rparr>"]
     result_value [of "JString (js ''4155551234'')" "js ''Field''" False id "js ''tel''" "\<lparr>optRequired = Some False, optFieldName = None\<rparr>"]
  by (simp add: validatePhone_def validateEmail_def sanitizeString_def trim_def js_def isWhiteSpace_def
      isControl_def PHONE_REGEX_def phoneRanges_def whiteSpaceRanges_def inRanges_def Let_def
      normalizePhone_def isDigit_def MIN_PHONE_DIGITS_def MAX_PHONE_DIGITS_def formatPhone_def
      sliceJS_def sliceFrom_def EMAIL_REGEX_def emailLabel_def emailLocalRanges_def alnumRanges_def)

subsection \<open>Matching\<close>

lemma matches_Nul: "matches Nul s = False"
  by (induction s) auto

lemma matches_Alt: "matches (Alt a b) s = (matches a s \<or> matches b s)"
  by (induction s arbitrary: a b) auto

lemma matches_Seq_Nul: "matches (Seq Nul r) s = False"
  by (induction s) auto

lemma matches_Eps_Star_Class:
  "matches (Seq Eps (Star (Class rs))) s = list_all (inRanges rs) s"
  by (induction s) (auto simp: matches_Alt matches_Seq_Nul)

lemma matches_Plus_Class:
  "matches (Plus (Class rs)) s = (s \<noteq> [] \<and> list_all (inRanges rs) s)"
  by (cases s) (auto simp: matches_Eps_Star_Class matches_Seq_Nul)

lemma range_single: "(a \<le> c \<and> c \<le> a) = (c = (a::16 word))"
  by auto

lemma inRanges_phoneRanges: "inRanges phoneRanges = isPhoneChar"
proof
  fix c
  have "inRanges whiteSpaceRanges c = isWhiteSpace c"
    unfolding inRanges_def whiteSpaceRanges_def isWhiteSpace_def
    by (simp add: range_single) 
  then show "inRanges phoneRanges c = isPhoneChar c"
    unfolding inRanges_def phoneRanges_def isPhoneChar_def isDigit_def
    by (simp add: range_single)
qed

lemma dead_not_nullable: "dead r \<Longrightarrow> \<not> nullable r"
  by (induction r) auto

lemma dead_deriv: "dead r \<Longrightarrow> dead (deriv c r)"
  by (induction r) (auto simp: dead_not_nullable)

lemma dead_no_match: "dead r \<Longrightarrow> \<not> matches r s"
  by (induction s arbitrary: r) (auto simp: dead_not_nullable dead_deriv)

lemma asciiOnly_deriv: "asciiOnly r \<Longrightarrow> asciiOnly (deriv c r)"
  by (induction r) auto

lemma inRanges_ascii:
  "list_all (\<lambda>(lo, hi). hi \<le> 0x7F) rs \<Longrightarrow> inRanges rs c \<Longrightarrow> isAscii c"
  by (induction rs) (auto simp: inRanges_def isAscii_def)

lemma nonascii_deriv_dead: "asciiOnly r \<Longrightarrow> \<not> isAscii c \<Longrightarrow> dead (deriv c r)"
  by (induction r) (auto dest: inRanges_ascii)

lemma asciiOnly_matches: "asciiOnly r \<Longrightarrow> matches r s \<Longrightarrow> list_all isAscii s"
proof (induction s arbitrary: r)
  case Nil
  then show ?case by simp
next
  case (Cons c cs)
  have "isAscii c"
  proof (rule ccontr)
    assume "\<not> isAscii c"
    with Cons.prems(1) have "dead (deriv c r)" by (rule nonascii_deriv_dead)
    then have "\<not> matches (deriv c r) cs" by (rule dead_no_match)
    with Cons.prems(2) show False by simp
  qed
  moreover have "list_all isAscii cs"
    using Cons.IH [of "deriv c r"] Cons.prems by (simp add: asciiOnly_deriv)
  ultimately show ?case by simp
qed

lemma asciiOnly_EMAIL_REGEX: "asciiOnly EMAIL_REGEX"
  by (simp add: EMAIL_REGEX_def emailLabel_def emailLocalRanges_def alnumRanges_def)

subsection \<open>Phone numbers\<close>

text \<open>
  Claim C5, as amended. \<open>validatePhone\<close> accepts a non-empty sanitized value if and only
  if it contains only digits, whitespace (\<open>\s\<close>), hyphens and parentheses and has between
  10 and 15 digits. The contact form's \<open>phone\<close> rule accepts a non-empty trimmed value if
  and only if it has at least 10 digits: it has no upper bound and no restriction on the
  other characters.
\<close>

theorem phone_acceptance:
  "(sanitizeString p \<noteq> [] \<longrightarrow>
      isValid (validatePhone p required) =
        (list_all isPhoneChar (sanitizeString p) \<and>
         10 \<le> length (filter isDigit (sanitizeString p)) \<and>
         length (filter isDigit (sanitizeString p)) \<le> 15)) \<and>
   (trim v \<noteq> [] \<longrightarrow>
      ruleValid (validationRules_phone v) = (10 \<le> length (filter isDigit (trim v))))"
  by (auto simp: validatePhone_def validationRules_phone_def Let_def PHONE_REGEX_def
      matches_Plus_Class inRanges_phoneRanges normalizePhone_def MIN_PHONE_DIGITS_def
      MAX_PHONE_DIGITS_def)

text \<open>
  The theorem at a formatted ten-digit number, which \<open>validatePhone\<close> accepts, and at nine
  digits, which the contact form's rule rejects.
\<close>

theorem phone_acceptance_witness:
  "sanitizeString (JString (js ''(415) 555-1234'')) \<noteq> [] \<and>
   isValid (validatePhone (JString (js ''(415) 555-1234'')) False) \<and>
   trim (js ''415555123'') \<noteq> [] \<and>
   \<not> ruleValid (validationRules_phone (js ''415555123''))"
  using phone_acceptance [of "JString (js ''(415) 555-1234'')" False "js ''415555123''"]
  by (simp add: sanitizeString_def trim_def js_def isWhiteSpace_def isControl_def isDigit_def
      isPhoneChar_def)

text \<open>
  The claim as stated fails for the contact form's rule: it accepts a non-empty value of
  16 digits.
\<close>

theorem contact_phone_counterexample:
  "trim (js ''1234567890123456'') \<noteq> [] \<and>
   ruleValid (validationRules_phone (js ''1234567890123456'')) \<and>
   \<not> length (filter isDigit (trim (js ''1234567890123456''))) \<le> 15"
  by (simp add: validationRules_phone_def Let_def js_def trim_def isWhiteSpace_def isDigit_def)

subsection \<open>Email addresses\<close>

text \<open>
  Claim C6. Whenever \<open>validateEmail\<close> accepts, the value it returns is the lower-cased
  sanitized input; an accepted address is ASCII, so this is the sanitized input with
  \<open>A\<close>..\<open>Z\<close> replaced by \<open>a\<close>..\<open>z\<close>, whatever the engine does beyond ASCII. In
  particular \<open>"User@Example.COM"\<close> is accepted and normalized to \<open>"user@example.com"\<close>.
\<close>

theorem email_lowercased:
  "(isValid (validateEmail unicodeLower e required) \<longrightarrow>
      resultValue (validateEmail unicodeLower e required) =
        JString (toLowerCase unicodeLower (sanitizeString e)) \<and>
      toLowerCase unicodeLower (sanitizeString e) = map asciiLower (sanitizeString e)) \<and>
   validateEmail unicodeLower (JString (js ''User@Example.COM'')) required =
     \<lparr>isValid = True, error = None, resultValue = JString (js ''user@example.com'')\<rparr>"
proof (intro conjI impI)
  assume v: "isValid (validateEmail unicodeLower e required)"
  show "resultValue (validateEmail unicodeLower e required) =
        JString (toLowerCase unicodeLower (sanitizeString e))"
    using v by (auto simp: validateEmail_def Let_def toLowerCase_def split: if_splits)
  have "sanitizeString e = [] \<or> matches EMAIL_REGEX (sanitizeString e)"
    using v by (auto simp: validateEmail_def Let_def split: if_splits)
  then have "list_all isAscii (sanitizeString e)"
    using asciiOnly_matches [OF asciiOnly_EMAIL_REGEX] by auto
  then show "toLowerCase unicodeLower (sanitizeString e) = map asciiLower (sanitizeString e)"
    by (simp add: toLowerCase_def)
next
  show "validateEmail unicodeLower (JString (js ''User@Example.COM'')) required =
     \<lparr>isValid = True, error = None, resultValue = JString (js ''user@example.com'')\<rparr>"
    by (simp add: validateEmail_def sanitizeString_def trim_def js_def isWhiteSpace_def
        isControl_def EMAIL_REGEX_def emailLabel_def emailLocalRanges_def alnumRanges_def
        inRanges_def Let_def toLowerCase_def isAscii_def asciiLower_def)
qed

text \<open>
  The theorem at an accepted address with surrounding blanks.
\<close>

theorem email_lowercased_witness:
  "isValid (validateEmail id (JString (js ''  Jordan@Example.com '')) True) \<and>
   resultValue (validateEmail id (JString (js ''  Jordan@Example.com '')) True) =
     JString (js ''jordan@example.com'')"
  using email_lowercased [of id "JString (js ''  Jordan@Example.com '')" True]
  by (simp add: validateEmail_def sanitizeString_def trim_def js_def isWhiteSpace_def
        isControl_def EMAIL_REGEX_def emailLabel_def emailLocalRanges_def alnumRanges_def
        inRanges_def Let_def toLowerCase_def isAscii_def asciiLower_def)

subsection \<open>Phone display format\<close>

lemma filter_all: "list_all P xs \<Longrightarrow> filter P xs = xs"
  by (induction xs) auto

lemma list_all_take: "list_all P xs \<Longrightarrow> list_all P (take n xs)"
  by (auto simp: list_all_iff dest: in_set_takeD)

lemma list_all_drop: "list_all P xs \<Longrightarrow> list_all P (drop n xs)"
  by (auto simp: list_all_iff dest: in_set_dropD)

lemma take_take_drop: "take 3 ds @ take 3 (drop 3 ds) @ drop 6 ds = ds"
proof -
  have "take 3 (drop 3 ds) @ drop 6 ds = drop 3 ds"
    using append_take_drop_id [of 3 "drop 3 ds"] by simp
  then show ?thesis by simp
qed

lemma formatPhone_digits:
  assumes "list_all isDigit ds" and "length ds = 10"
  shows "formatPhone (JString ds) = JString (displayTen ds)"
  using assms by (simp add: formatPhone_def normalizePhone_def filter_all sliceJS_def sliceFrom_def displayTen_def)

lemma normalizePhone_displayTen:
  assumes "list_all isDigit ds"
  shows "normalizePhone (JString (displayTen ds)) = ds"
proof -
  have "filter isDigit (displayTen ds) = take 3 ds @ take 3 (drop 3 ds) @ drop 6 ds"
    using assms
    by (simp add: displayTen_def js_def isDigit_def filter_all list_all_take list_all_drop)
  then show ?thesis by (simp add: normalizePhone_def take_take_drop)
qed

text \<open>
  Claim C7. For a string \<open>ds\<close> of exactly ten digits, \<open>formatPhone\<close> yields the display
  form \<open>(ddd) ddd-dddd\<close>, and formatting that display form again yields the same string.
  In particular \<open>formatPhone("4155551234")\<close> and \<open>formatPhone("(415) 555-1234")\<close> are both
  \<open>"(415) 555-1234"\<close>.
\<close>

theorem formatPhone_idempotent:
  "(list_all isDigit ds \<and> length ds = 10 \<longrightarrow>
      formatPhone (JString ds) = JString (displayTen ds) \<and>
      formatPhone (formatPhone (JString ds)) = formatPhone (JString ds)) \<and>
   formatPhone (JString (js ''4155551234'')) = JString (js ''(415) 555-1234'') \<and>
   formatPhone (JString (js ''(415) 555-1234'')) = JString (js ''(415) 555-1234'')"
proof (intro conjI impI)
  assume a: "list_all isDigit ds \<and> length ds = 10"
  then show f: "formatPhone (JString ds) = JString (displayTen ds)"
    by (simp add: formatPhone_digits)
  have "formatPhone (JString (displayTen ds)) = JString (displayTen ds)"
  proof -
    have "normalizePhone (JString (displayTen ds)) = ds"
      using a by (simp add: normalizePhone_displayTen)
    then have "formatPhone (JString (displayTen ds)) = formatPhone (JString ds)"
      using a by (simp add: formatPhone_def Let_def normalizePhone_def filter_all)
    then show ?thesis by (simp add: f)
  qed
  then show "formatPhone (formatPhone (JString ds)) = formatPhone (JString ds)"
    by (simp add: f)
next
  show "formatPhone (JString (js ''4155551234'')) = JString (js ''(415) 555-1234'')"
    by (simp add: formatPhone_def normalizePhone_def js_def isDigit_def sliceJS_def sliceFrom_def)
  show "formatPhone (JString (js ''(415) 555-1234'')) = JString (js ''(415) 555-1234'')"
    by (simp add: formatPhone_def normalizePhone_def js_def isDigit_def sliceJS_def sliceFrom_def)
qed

text \<open>
  The theorem at the ten digits \<open>2125550199\<close>.
\<close>

theorem formatPhone_idempotent_witness:
  "list_all isDigit (js ''2125550199'') \<and> length (js ''2125550199'') = 10 \<and>
   formatPhone (JString (js ''2125550199'')) = JString (displayTen (js ''2125550199'')) \<and>
   formatPhone (formatPhone (JString (js ''2125550199''))) =
     formatPhone (JString (js ''2125550199''))"
proof -
  have h: "list_all isDigit (js ''2125550199'') \<and> length (js ''2125550199'') = 10"
    by (simp add: js_def isDigit_def)
  with formatPhone_idempotent [of "js ''2125550199''"] show ?thesis
    by blast
qed

subsection \<open>Blank input\<close>

text \<open>
  Claim C8 fails on the code. \<open>sanitizeString\<close> trims before it strips control characters,
  so whitespace between two control characters survives: the string \<open>"\x7F \x7F"\<close>
  consists only of whitespace and control characters, yet it is sanitized to \<open>" "\<close>, and
  \<open>validateRequired\<close> accepts it.
\<close>

theorem sanitize_keeps_shielded_space:
  "list_all (\<lambda>c. isWhiteSpace c \<or> isControl c) [0x7F, 0x20, 0x7F] \<and>
   sanitizeString (JString [0x7F, 0x20, 0x7F]) = [0x20] \<and>
   validateRequired (JString [0x7F, 0x20, 0x7F]) (js ''Field'') =
     \<lparr>isValid = True, error = None, resultValue = JString [0x20]\<rparr>"
  by (simp add: sanitizeString_def validateRequired_def trim_def isWhiteSpace_def isControl_def)

subsection \<open>What validation leaves alone\<close>

lemma showFieldError_frame:
  "isSubmitting (formState (showFieldError i m w)) = isSubmitting (formState w)"
  "submitButton (showFieldError i m w) = submitButton w"
  by (simp_all add: showFieldError_def announceToScreenReader_def Let_def split: option.splits)

lemma clearFieldError_frame:
  "isSubmitting (formState (clearFieldError i w)) = isSubmitting (formState w)"
  "submitButton (clearFieldError i w) = submitButton w"
  by (simp_all add: clearFieldError_def Let_def)

lemma contact_validateField_frame:
  "isSubmitting (formState (snd (contact_validateField i w))) = isSubmitting (formState w)"
  "submitButton (snd (contact_validateField i w)) = submitButton w"
  by (simp_all add: contact_validateField_def Let_def showFieldError_frame clearFieldError_frame
      split: option.splits)

lemma validateEach_frame:
  "isSubmitting (formState (snd (snd (validateEach is acc)))) = isSubmitting (formState (snd (snd acc))) \<and>
   submitButton (snd (snd (validateEach is acc))) = submitButton (snd (snd acc))"
proof (induction "is" arbitrary: acc)
  case Nil
  then show ?case by simp
next
  case (Cons i "is")
  obtain a b w where acc: "acc = (a, b, w)" by (cases acc) auto
  obtain v w1 where vf: "contact_validateField i w = (v, w1)" by (cases "contact_validateField i w") auto
  have fr: "isSubmitting (formState w1) = isSubmitting (formState w)" "submitButton w1 = submitButton w"
    using contact_validateField_frame [of i w] by (simp_all add: vf)
  show ?case
    using Cons.IH [of "(False, (case b of None \<Rightarrow> Some i | Some j \<Rightarrow> Some j), w1)"]
      Cons.IH [of "(a, b, w1)"]
    by (simp add: acc vf fr)
qed

lemma validateForm_frame:
  "isSubmitting (formState (snd (validateForm w))) = isSubmitting (formState w)"
  "submitButton (snd (validateForm w)) = submitButton w"
  using validateEach_frame [of "filter (\<lambda>i. fieldName (formFields w ! i) \<noteq> HONEYPOT_FIELD)
      [0 ..< length (formFields w)]" "(True, None, w)"]
  by (auto simp: validateForm_def Let_def split: prod.splits)

lemma handleFormSubmit_None:
  "handleFormSubmit w = (w1, None) \<Longrightarrow> isSubmitting (formState w1) = isSubmitting (formState w)"
  using validateForm_frame(1) [of w]
  by (auto simp: handleFormSubmit_def Let_def split: if_splits prod.splits)

lemma handleFormSubmit_Some:
  assumes "handleFormSubmit w = (w1, Some p)"
  shows "\<not> isSubmitting (formState w)" and "isSubmitting (formState w1)"
    and "originalButtonText p = (case submitButton w of None \<Rightarrow> [] | Some b \<Rightarrow> buttonText b)"
    and "submitButton w1 =
           map_option (\<lambda>b. b\<lparr>disabled := True, buttonText := js ''Sending...'', ariaBusy := True\<rparr>)
             (submitButton w)"
    and "calls w1 \<noteq> [] \<and> last (calls w1) = SubmitFormDataCall (sentData p)"
  using assms validateForm_frame(2) [of w]
  by (auto simp: handleFormSubmit_def Let_def split: if_splits prod.splits)

lemma finallyBlock_clears:
  "\<not> isSubmitting (formState (finallyBlock p w))"
  "submitButton (finallyBlock p w) =
     map_option (\<lambda>b. b\<lparr>disabled := False, buttonText := originalButtonText p, ariaBusy := False\<rparr>)
       (submitButton w)"
  by (simp_all add: finallyBlock_def Let_def)

lemma showErrorMessage_button: "submitButton (showErrorMessage m w) = submitButton w"
  by (simp add: showErrorMessage_def announceToScreenReader_def Let_def split: option.splits)

lemma showSuccessMessage_button: "submitButton (showSuccessMessage w) = submitButton w"
  by (simp add: showSuccessMessage_def announceToScreenReader_def Let_def split: option.splits)

lemma catchBlock_button: "submitButton (catchBlock r w) = submitButton w"
  by (simp add: catchBlock_def showErrorMessage_button split: Reason.splits)

lemma tryCatchBlock_button: "submitButton (tryCatchBlock outcome w) = submitButton w"
  by (simp add: tryCatchBlock_def catchBlock_button showSuccessMessage_button formReset_def
      Let_def split: Outcome.splits)

lemma settled_clears:
  "\<not> isSubmitting (formState (handleFormSubmit_settled outcome p w))"
  "submitButton (handleFormSubmit_settled outcome p w) =
     map_option (\<lambda>b. b\<lparr>disabled := False, buttonText := originalButtonText p, ariaBusy := False\<rparr>)
       (submitButton w)"
  by (simp_all add: handleFormSubmit_settled_def finallyBlock_clears tryCatchBlock_button)

subsection \<open>The invariant of the event loop\<close>

subsection \<open>The invariant of the event loop\<close>

lemma oneInFlight_initial: "oneInFlight (initialSystem page)"
  by (simp add: oneInFlight_def initialSystem_def initialFormState_def)

lemma oneInFlight_step: "oneInFlight s \<Longrightarrow> oneInFlight (step e s)"
proof (cases e)
  case SubmitEvent
  assume inv: "oneInFlight s"
  obtain w1 p where h: "handleFormSubmit (world s) = (w1, p)"
    by (cases "handleFormSubmit (world s)") auto
  show ?thesis
  proof (cases p)
    case None
    with h inv show ?thesis
      using handleFormSubmit_None [of "world s" w1]
      by (simp add: SubmitEvent oneInFlight_def)
  next
    case (Some x)
    with h inv show ?thesis
      using handleFormSubmit_Some(1,2) [of "world s" w1 x]
      by (simp add: SubmitEvent oneInFlight_def)
  qed
next
  case (SettleEvent outcome)
  assume "oneInFlight s"
  then show ?thesis
    by (cases "inFlight s") (simp_all add: SettleEvent oneInFlight_def settled_clears(1))
next
  case (EditEvent i v)
  assume "oneInFlight s"
  then show ?thesis by (simp add: EditEvent oneInFlight_def)
next
  case (BlurEvent i)
  assume "oneInFlight s"
  then show ?thesis
    by (simp add: BlurEvent oneInFlight_def handleFieldBlur_def Let_def contact_validateField_frame(1))
next
  case (InputTimerEvent i)
  assume "oneInFlight s"
  then show ?thesis
    by (simp add: InputTimerEvent oneInFlight_def handleFieldInput_def contact_validateField_frame(1))
qed

lemma oneInFlight_run: "oneInFlight s \<Longrightarrow> oneInFlight (run es s)"
  by (induction es arbitrary: s) (simp_all add: oneInFlight_step)

subsection \<open>The submit handler\<close>

lemmas eval_defs = examplePage_def exampleField_def initialFormState_def initialSystem_def
  handleFormSubmit_def checkHoneypot_def HONEYPOT_FIELD_def validateForm_def
  contact_validateField_def clearFieldError_def showFieldError_def announceToScreenReader_def
  validationRules_def validationRules_parentName_def validationRules_email_def
  validationRules_phone_def validationRules_gradeLevel_def validationRules_message_def
  emailRegex_def whiteSpaceRanges_def inRanges_def VALID_GRADES_def
  CONTACT_MIN_MESSAGE_LENGTH_def CONTACT_MAX_MESSAGE_LENGTH_def
  trim_def isWhiteSpace_def isDigit_def js_def Let_def collectFormData_def

text \<open>
  Claim C1. When the form has a honeypot field whose trimmed value is not empty, the
  first part of \<open>handleFormSubmit\<close> returns with the page and the module state exactly as
  they were and with no pending submission: no call of \<open>validateField\<close>,
  \<open>submitFormData\<close>, \<open>showSuccessMessage\<close> or \<open>showErrorMessage\<close> is logged, the message
  container and the announcements are unchanged. Nothing is assumed about the other
  fields or about the submission flag.
\<close>

theorem honeypot_blocks_submission:
  assumes "find (\<lambda>f. fieldName f = HONEYPOT_FIELD) (formFields w) = Some honeypotField"
    and "trim (fieldValue honeypotField) \<noteq> []"
  shows "handleFormSubmit w = (w, None) \<and>
         calls (fst (handleFormSubmit w)) = calls w \<and>
         messageContainer (fst (handleFormSubmit w)) = messageContainer w \<and>
         announcements (fst (handleFormSubmit w)) = announcements w \<and>
         (world s = w \<longrightarrow> step SubmitEvent s = s)"
proof -
  have "\<not> checkHoneypot w"
    using assms by (simp add: checkHoneypot_def)
  then have h: "handleFormSubmit w = (w, None)"
    by (simp add: handleFormSubmit_def)
  then show ?thesis by auto
qed

text \<open>
  The theorem at the page a bot has filled, whose name, email and message are invalid.
\<close>

theorem honeypot_blocks_submission_witness:
  "find (\<lambda>f. fieldName f = HONEYPOT_FIELD) (formFields spamPage) =
     Some (exampleField ''website'' ''http://spam.example'') \<and>
   trim (fieldValue (exampleField ''website'' ''http://spam.example'')) \<noteq> [] \<and>
   handleFormSubmit spamPage = (spamPage, None) \<and>
   calls (fst (handleFormSubmit spamPage)) = [] \<and>
   step SubmitEvent \<lparr>world = spamPage, inFlight = []\<rparr> = \<lparr>world = spamPage, inFlight = []\<rparr>"
proof -
  have f: "find (\<lambda>f. fieldName f = HONEYPOT_FIELD) (formFields spamPage) =
     Some (exampleField ''website'' ''http://spam.example'')"
    by (simp add: spamPage_def examplePage_def exampleField_def HONEYPOT_FIELD_def js_def)
  have t: "trim (fieldValue (exampleField ''website'' ''http://spam.example'')) \<noteq> []"
    by (simp add: exampleField_def js_def trim_def isWhiteSpace_def)
  have c: "calls spamPage = []"
    by (simp add: spamPage_def examplePage_def)
  show ?thesis
    using honeypot_blocks_submission [OF f t, of "\<lparr>world = spamPage, inFlight = []\<rparr>"] f t c
    by simp
qed

text \<open>
  Claim C2. While \<open>isSubmitting\<close> is true, \<open>handleFormSubmit\<close> returns with the page and
  the module state exactly as they were and starts no submission (so no field is
  validated and \<open>submitFormData\<close> is not called). After any sequence of events from the
  loading of the script, at most one submission is pending, and \<open>isSubmitting\<close> is true
  exactly when one is.
\<close>

theorem submission_mutual_exclusion:
  "(isSubmitting (formState w) \<longrightarrow> handleFormSubmit w = (w, None)) \<and>
   (isSubmitting (formState (world s)) \<longrightarrow> step SubmitEvent s = s) \<and>
   length (inFlight (run es (initialSystem page))) \<le> 1 \<and>
   isSubmitting (formState (world (run es (initialSystem page)))) =
     (inFlight (run es (initialSystem page)) \<noteq> [])"
proof -
  have a: "isSubmitting (formState w) \<longrightarrow> handleFormSubmit w = (w, None)" for w
    by (simp add: handleFormSubmit_def)
  have b: "isSubmitting (formState (world s)) \<longrightarrow> step SubmitEvent s = s"
    using a [of "world s"] by simp
  have "oneInFlight (run es (initialSystem page))"
    by (rule oneInFlight_run [OF oneInFlight_initial])
  with a b show ?thesis
    by (simp add: oneInFlight_def)
qed

text \<open>
  The theorem at the valid enquiry: after the first submit the flag is set and a
  submission is pending; a second submit changes nothing.
\<close>

theorem submission_mutual_exclusion_witness:
  "isSubmitting (formState (world (run [SubmitEvent] (initialSystem enquiryPage)))) \<and>
   inFlight (run [SubmitEvent] (initialSystem enquiryPage)) \<noteq> [] \<and>
   run [SubmitEvent, SubmitEvent] (initialSystem enquiryPage) =
     run [SubmitEvent] (initialSystem enquiryPage) \<and>
   length (inFlight (run [SubmitEvent, SubmitEvent] (initialSystem enquiryPage))) \<le> 1"
proof -
  have i: "isSubmitting (formState (world (run [SubmitEvent] (initialSystem enquiryPage))))"
    by (simp add: enquiryPage_def eval_defs split: prod.splits)
  have r: "run [SubmitEvent, SubmitEvent] (initialSystem enquiryPage) =
      step SubmitEvent (run [SubmitEvent] (initialSystem enquiryPage))"
    by simp
  show ?thesis
    using i submission_mutual_exclusion
      [of "world (run [SubmitEvent] (initialSystem enquiryPage))"
          "run [SubmitEvent] (initialSystem enquiryPage)" "[SubmitEvent]" enquiryPage]
      submission_mutual_exclusion
      [of "world (run [SubmitEvent] (initialSystem enquiryPage))"
          "run [SubmitEvent] (initialSystem enquiryPage)" "[SubmitEvent, SubmitEvent]" enquiryPage]
    by (simp only: r) simp
qed

text \<open>
  Claim C3. When the first part of \<open>handleFormSubmit\<close> sets the flag and calls
  \<open>submitFormData\<close>, it disables the button and captures its text. Whatever the promise
  settles with (a successful result, a failed result, a rejection) and whatever happened
  to the page in between, the second part ends with \<open>isSubmitting\<close> false and the button
  enabled, not busy and showing the captured text. Run on the state the first part left,
  it gives the button back as it was before the submit, enabled.
\<close>

theorem submit_cleanup:
  "(handleFormSubmit w = (w1, Some p) \<longrightarrow>
      isSubmitting (formState w1) \<and>
      calls w1 \<noteq> [] \<and> last (calls w1) = SubmitFormDataCall (sentData p) \<and>
      submitButton w1 =
        map_option (\<lambda>b. b\<lparr>disabled := True, buttonText := js ''Sending...'', ariaBusy := True\<rparr>)
          (submitButton w) \<and>
      originalButtonText p = (case submitButton w of None \<Rightarrow> [] | Some b \<Rightarrow> buttonText b) \<and>
      submitButton (handleFormSubmit_settled outcome p w1) =
        map_option (\<lambda>b. b\<lparr>disabled := False, ariaBusy := False\<rparr>) (submitButton w)) \<and>
   \<not> isSubmitting (formState (handleFormSubmit_settled outcome p w')) \<and>
   submitButton (handleFormSubmit_settled outcome p w') =
     map_option (\<lambda>b. b\<lparr>disabled := False, buttonText := originalButtonText p, ariaBusy := False\<rparr>)
       (submitButton w')"
proof (intro conjI impI)
  assume h: "handleFormSubmit w = (w1, Some p)"
  show "isSubmitting (formState w1)"
    by (rule handleFormSubmit_Some(2) [OF h])
  show "calls w1 \<noteq> []" and "last (calls w1) = SubmitFormDataCall (sentData p)"
    using handleFormSubmit_Some(5) [OF h] by simp_all
  show b1: "submitButton w1 =
        map_option (\<lambda>b. b\<lparr>disabled := True, buttonText := js ''Sending...'', ariaBusy := True\<rparr>)
          (submitButton w)"
    by (rule handleFormSubmit_Some(4) [OF h])
  show o: "originalButtonText p = (case submitButton w of None \<Rightarrow> [] | Some b \<Rightarrow> buttonText b)"
    by (rule handleFormSubmit_Some(3) [OF h])
  show "submitButton (handleFormSubmit_settled outcome p w1) =
        map_option (\<lambda>b. b\<lparr>disabled := False, ariaBusy := False\<rparr>) (submitButton w)"
    by (cases "submitButton w") (simp_all add: settled_clears(2) b1 o)
next
  show "\<not> isSubmitting (formState (handleFormSubmit_settled outcome p w'))"
    by (rule settled_clears(1))
  show "submitButton (handleFormSubmit_settled outcome p w') =
     map_option (\<lambda>b. b\<lparr>disabled := False, buttonText := originalButtonText p, ariaBusy := False\<rparr>)
       (submitButton w')"
    by (rule settled_clears(2))
qed

text \<open>
  The theorem at the valid enquiry, settled by the stub of the source, by a failed
  result and by a rejection with \<open>null\<close>.
\<close>

theorem submit_cleanup_witness:
  "(case handleFormSubmit enquiryPage of
      (w1, None) \<Rightarrow> False
    | (w1, Some p) \<Rightarrow>
        isSubmitting (formState w1) \<and>
        \<not> isSubmitting (formState (handleFormSubmit_settled (submitFormData (sentData p)) p w1)) \<and>
        submitButton (handleFormSubmit_settled (submitFormData (sentData p)) p w1) =
          submitButton enquiryPage \<and>
        submitButton (handleFormSubmit_settled
            (Resolved \<lparr>resultSuccess = False, resultMessage = []\<rparr>) p w1) =
          submitButton enquiryPage \<and>
        submitButton (handleFormSubmit_settled (Rejected Nullish) p w1) =
          submitButton enquiryPage)"
proof -
  obtain w1 q where h: "handleFormSubmit enquiryPage = (w1, q)"
    by (cases "handleFormSubmit enquiryPage") auto
  have "snd (handleFormSubmit enquiryPage) \<noteq> None"
    by (simp add: enquiryPage_def eval_defs)
  with h obtain p where q: "q = Some p" by auto
  have b: "map_option (\<lambda>b. b\<lparr>disabled := False, ariaBusy := False\<rparr>) (submitButton enquiryPage) =
      submitButton enquiryPage"
    by (simp add: enquiryPage_def examplePage_def)
  show ?thesis
    using submit_cleanup [of enquiryPage w1 p "submitFormData (sentData p)" w1]
      submit_cleanup [of enquiryPage w1 p "Resolved \<lparr>resultSuccess = False, resultMessage = []\<rparr>" w1]
      submit_cleanup [of enquiryPage w1 p "Rejected Nullish" w1]
    by (simp add: h q b)
qed

end
